theory Spec2Isabelle
  imports Main "HOL-Library.AList" "HOL-Library.Sublist" "HOL-Library.Char_ord"
    "HOL-Library.List_Lexorder"
begin

section \<open>Values, exceptions and the outside world\<close>

text \<open>
  The service of \<^verbatim>\<open>consultor.py\<close> is one Flask handler, \<^verbatim>\<open>query_database\<close>, over the
  three methods of \<^verbatim>\<open>SQLChatBot\<close>. Python values that come out of a JSON parser are
  modelled by \<open>json\<close>; Python's \<^verbatim>\<open>None\<close> and JSON's \<^verbatim>\<open>null\<close> are the same value
  \<open>JNull\<close>. A \<open>string\<close> is a Python \<^verbatim>\<open>str\<close> whose characters have code points
  below 256. Non-integer numbers are left out: nothing in the code computes with them,
  and for truthiness they behave as \<open>JInt\<close> does. A \<open>JObj\<close> is a parsed \<^verbatim>\<open>dict\<close>, its
  keys distinct.
\<close>

datatype json =
    JNull
  | JBool bool
  | JInt int
  | JStr string
  | JArr "json list"
  | JObj "(string \<times> json) list"

text \<open>
  Instances of \<^verbatim>\<open>Exception\<close>: the class, and the text that \<^verbatim>\<open>str(e)\<close> gives.
  \<open>PsycopgError\<close> stands for \<^verbatim>\<open>psycopg2.Error\<close> and its subclasses, the only class
  that the database methods catch.
\<close>

datatype exn_class =
    PsycopgError
  | AttributeError
  | KeyError
  | IndexError
  | TypeError
  | JSONDecodeError
  | RequestException
  | OtherException

datatype exn = Exn exn_class string

fun exn_text :: "exn \<Rightarrow> string" where
  "exn_text (Exn c t) = t"

fun is_psycopg_error :: "exn \<Rightarrow> bool" where
  "is_psycopg_error (Exn c t) = (c = PsycopgError)"

text \<open>Python's truth value of a parsed JSON value (\<^verbatim>\<open>not x\<close> is its negation).\<close>

fun truthy :: "json \<Rightarrow> bool" where
  "truthy JNull = False"
| "truthy (JBool b) = b"
| "truthy (JInt i) = (i \<noteq> 0)"
| "truthy (JStr s) = (s \<noteq> [])"
| "truthy (JArr xs) = (xs \<noteq> [])"
| "truthy (JObj kvs) = (kvs \<noteq> [])"

text \<open>Truth value of a value that is a \<^verbatim>\<open>str\<close> or \<^verbatim>\<open>None\<close>.\<close>

fun truthy_str :: "string option \<Rightarrow> bool" where
  "truthy_str None = False"
| "truthy_str (Some s) = (s \<noteq> [])"

fun py_type_name :: "json \<Rightarrow> string" where
  "py_type_name JNull = ''NoneType''"
| "py_type_name (JBool b) = ''bool''"
| "py_type_name (JInt i) = ''int''"
| "py_type_name (JStr s) = ''str''"
| "py_type_name (JArr xs) = ''list''"
| "py_type_name (JObj kvs) = ''dict''"

definition no_attribute :: "json \<Rightarrow> string \<Rightarrow> exn" where
  "no_attribute v a =
     Exn AttributeError
       ([CHR 0x27] @ py_type_name v @ [CHR 0x27] @ '' object has no attribute '' @
        [CHR 0x27] @ a @ [CHR 0x27])"

text \<open>\<^verbatim>\<open>data.get(k)\<close>: only a \<^verbatim>\<open>dict\<close> has the method; a missing key gives \<^verbatim>\<open>None\<close>.\<close>

fun py_get :: "json \<Rightarrow> string \<Rightarrow> exn + json" where
  "py_get (JObj kvs) k = Inr (case map_of kvs k of None \<Rightarrow> JNull | Some v \<Rightarrow> v)"
| "py_get v k = Inl (no_attribute v ''get'')"

text \<open>\<^verbatim>\<open>x[k]\<close> with a string key.\<close>

fun getitem_str :: "json \<Rightarrow> string \<Rightarrow> exn + json" where
  "getitem_str (JObj kvs) k =
     (case map_of kvs k of
        None \<Rightarrow> Inl (Exn KeyError ([CHR 0x27] @ k @ [CHR 0x27]))
      | Some v \<Rightarrow> Inr v)"
| "getitem_str (JArr xs) k =
     Inl (Exn TypeError ''list indices must be integers or slices, not str'')"
| "getitem_str (JStr s) k =
     Inl (Exn TypeError (''string indices must be integers, not '' @ [CHR 0x27] @ ''str'' @ [CHR 0x27]))"
| "getitem_str v k =
     Inl (Exn TypeError ([CHR 0x27] @ py_type_name v @ [CHR 0x27] @ '' object is not subscriptable''))"

text \<open>\<^verbatim>\<open>x[0]\<close>.\<close>

fun getitem_0 :: "json \<Rightarrow> exn + json" where
  "getitem_0 (JArr []) = Inl (Exn IndexError ''list index out of range'')"
| "getitem_0 (JArr (x # xs)) = Inr x"
| "getitem_0 (JStr []) = Inl (Exn IndexError ''string index out of range'')"
| "getitem_0 (JStr (c # cs)) = Inr (JStr [c])"
| "getitem_0 (JObj kvs) = Inl (Exn KeyError ''0'')"
| "getitem_0 v =
     Inl (Exn TypeError ([CHR 0x27] @ py_type_name v @ [CHR 0x27] @ '' object is not subscriptable''))"

text \<open>\<^verbatim>\<open>j["choices"][0]["message"]["content"]\<close>, each subscript in turn.\<close>

definition first_choice_content :: "json \<Rightarrow> exn + json" where
  "first_choice_content j =
     (case getitem_str j ''choices'' of
        Inl e \<Rightarrow> Inl e
      | Inr cs \<Rightarrow>
          (case getitem_0 cs of
             Inl e \<Rightarrow> Inl e
           | Inr c \<Rightarrow>
               (case getitem_str c ''message'' of
                  Inl e \<Rightarrow> Inl e
                | Inr m \<Rightarrow> getitem_str m ''content'')))"

subsection \<open>Strings\<close>

text \<open>
  The characters that \<^verbatim>\<open>str.strip()\<close> removes, among code points below 256:
  9 to 13, 28 to 32, 133 and 160.
\<close>

definition is_space :: "char \<Rightarrow> bool" where
  "is_space c =
     (let n = (of_char c :: nat)
      in (9 \<le> n \<and> n \<le> 13) \<or> (28 \<le> n \<and> n \<le> 32) \<or> n = 133 \<or> n = 160)"

definition py_strip :: "string \<Rightarrow> string" where
  "py_strip s = rev (dropWhile is_space (rev (dropWhile is_space s)))"

text \<open>
  \<^verbatim>\<open>s.replace(old, new)\<close> for a non-empty \<open>old\<close>: the occurrences of \<open>old\<close> are
  found from the left, without overlap, and each is replaced. (For an empty \<open>old\<close>
  Python inserts \<open>new\<close> around every character; the code never does that, and the model
  returns the string as it is.)
\<close>

function py_replace :: "string \<Rightarrow> string \<Rightarrow> string \<Rightarrow> string" where
  "py_replace old new [] = []"
| "py_replace old new (c # cs) =
     (if old \<noteq> [] \<and> prefix old (c # cs)
      then new @ py_replace old new (drop (length old) (c # cs))
      else c # py_replace old new cs)"
  by pat_completeness auto
termination
  by (relation "measure (\<lambda>(old, new, s). length s)") (auto simp: neq_Nil_conv)

definition fence_sql :: string where
  "fence_sql = ''```sql''"

definition fence :: string where
  "fence = ''```''"

text \<open>Line 68: \<^verbatim>\<open>sql_query.strip().replace('```sql', '').replace('```', '')\<close>.\<close>

definition clean_sql :: "string \<Rightarrow> string" where
  "clean_sql s = py_replace fence [] (py_replace fence_sql [] (py_strip s))"

subsection \<open>Rows, replies and the world\<close>

text \<open>
  A value of a result row, as the driver hands it over, and a record of the query
  result: \<^verbatim>\<open>dict(zip(columns, row))\<close>, a \<^verbatim>\<open>dict\<close> in insertion order. The query is
  written by the generator, so a row can hold a value of any type the driver knows.
  \<open>COther\<close> is a value of a type that the JSON encoder behind \<^verbatim>\<open>jsonify\<close> does not
  write, such as \<^verbatim>\<open>datetime.time\<close>, \<^verbatim>\<open>datetime.timedelta\<close> or \<^verbatim>\<open>memoryview\<close>; it
  carries the name of that type.
\<close>

datatype cell = CNull | CInt int | CText string | CBool bool | COther string

type_synonym row = "(string \<times> cell) list"

text \<open>
  \<^verbatim>\<open>dict(pairs)\<close>: a key seen again keeps its place and takes the later value.
\<close>

definition py_dict :: "('k \<times> 'v) list \<Rightarrow> ('k \<times> 'v) list" where
  "py_dict kvs = fold (\<lambda>(k, v). AList.update k v) kvs []"

text \<open>
  What \<^verbatim>\<open>requests.post\<close> returned: the status code, and what \<^verbatim>\<open>response.json()\<close>
  gives, which is the parsed body or the exception raised for a body that is not JSON.
\<close>

record http_response =
  status_code :: nat
  json_body :: "exn + json"

text \<open>
  What the cursor holds after \<^verbatim>\<open>execute\<close>: \<^verbatim>\<open>cursor.description\<close> (a sequence of
  columns, name first, or \<^verbatim>\<open>None\<close>) and the rows of \<^verbatim>\<open>fetchall()\<close>.
\<close>

record cursor =
  description :: "(string \<times> nat) list option"
  fetched :: "cell list list"

text \<open>
  The outside world of one request. Each external call is made at most once in a run, so
  its outcome is a function of what is sent:
  \<^item> \<open>post_generate key user_input\<close>: the POST of line 64, whose payload is fixed but for
    the user's text and whose header carries the key;
  \<^item> \<open>post_explain key rows\<close>: the POST of line 90;
  \<^item> \<open>pg_connect url\<close>: \<^verbatim>\<open>psycopg2.connect(url, sslmode="require")\<close>;
  \<^item> \<open>pg_cursor sql\<close>: lines 36 to 38 on an open connection, that is the cursor after
    \<^verbatim>\<open>execute\<close> and \<^verbatim>\<open>fetchall\<close>, or the exception one of them raised.
  Console output (\<^verbatim>\<open>print\<close>) is not modelled.
\<close>

record world =
  post_generate :: "string option \<Rightarrow> json \<Rightarrow> exn + http_response"
  post_explain :: "string option \<Rightarrow> row list option \<Rightarrow> exn + http_response"
  pg_connect :: "string option \<Rightarrow> exn + unit"
  pg_cursor :: "string \<Rightarrow> exn + cursor"

subsection \<open>State\<close>

text \<open>
  The module's one shared object, \<^verbatim>\<open>sql_chatbot\<close>, with the two fields that
  \<^verbatim>\<open>__init__\<close> reads from the environment (\<^verbatim>\<open>os.getenv\<close> gives \<^verbatim>\<open>None\<close> for a
  variable that is not set).
\<close>

record SQLChatBot =
  db_url :: "string option"
  openai_api_key :: "string option"

text \<open>
  The trace records, in order, the calls and returns of the three methods and the opening
  and closing of the database connection. It is not program state: it is what the
  properties below speak about.
\<close>

datatype event =
    GenerateCalled json
  | GenerateReturned "string option"
  | ExecuteCalled string
  | ConnOpened
  | ConnClosed
  | ExecuteReturned "row list option" "string option"
  | ExplainCalled "row list option"
  | ExplainReturned json

record state =
  bot :: SQLChatBot
  trace :: "event list"

definition emit :: "event \<Rightarrow> state \<Rightarrow> state" where
  "emit ev s = s\<lparr>trace := trace s @ [ev]\<rparr>"

definition start :: "SQLChatBot \<Rightarrow> state" where
  "start b = \<lparr>bot = b, trace = []\<rparr>"

section \<open>The methods of SQLChatBot\<close>

definition msg_no_connection :: string where
  "msg_no_connection = ''No se pudo conectar a la base de datos.''"

definition msg_db_error :: string where
  "msg_db_error = ''Error en la base de datos: ''"

text \<open>
  \<^verbatim>\<open>connect_db\<close>, lines 20 to 27: the connection, or \<^verbatim>\<open>None\<close> when
  \<^verbatim>\<open>psycopg2.connect\<close> raises a \<^verbatim>\<open>psycopg2.Error\<close>; any other exception goes on.
\<close>

definition connect_db :: "world \<Rightarrow> state \<Rightarrow> (exn + unit option) \<times> state" where
  "connect_db w s =
     (case pg_connect w (db_url (bot s)) of
        Inr conn \<Rightarrow> (Inr (Some conn), emit ConnOpened s)
      | Inl e \<Rightarrow> if is_psycopg_error e then (Inr None, s) else (Inl e, s))"

text \<open>
  \<^verbatim>\<open>execute_query\<close>, lines 29 to 43. It returns the pair \<open>(rows, error)\<close> of the source.
  \<^verbatim>\<open>conn.close()\<close> stands on line 40 only, after the \<^verbatim>\<open>with\<close> block, which closes the
  cursor and not the connection; the \<^verbatim>\<open>except\<close> branch of line 42 returns without it.
  A \<^verbatim>\<open>description\<close> that is \<^verbatim>\<open>None\<close> makes the comprehension of line 39 raise a
  \<^verbatim>\<open>TypeError\<close>, which line 42 does not catch.
\<close>

definition execute_query ::
  "world \<Rightarrow> string \<Rightarrow> state \<Rightarrow> (exn + row list option \<times> string option) \<times> state" where
  "execute_query w sql_query s0 =
     (case connect_db w (emit (ExecuteCalled sql_query) s0) of
        (Inl e, s) \<Rightarrow> (Inl e, s)
      | (Inr None, s) \<Rightarrow>
          (Inr (None, Some msg_no_connection),
           emit (ExecuteReturned None (Some msg_no_connection)) s)
      | (Inr (Some conn), s) \<Rightarrow>
          (case pg_cursor w sql_query of
             Inl e \<Rightarrow>
               if is_psycopg_error e
               then (Inr (None, Some (msg_db_error @ exn_text e)),
                     emit (ExecuteReturned None (Some (msg_db_error @ exn_text e))) s)
               else (Inl e, s)
           | Inr cur \<Rightarrow>
               (case description cur of
                  None \<Rightarrow>
                    (Inl (Exn TypeError
                       ([CHR 0x27] @ ''NoneType'' @ [CHR 0x27] @ '' object is not iterable'')), s)
                | Some descr \<Rightarrow>
                    (let columns = map fst descr;
                         result = map (\<lambda>r. py_dict (zip columns r)) (fetched cur)
                     in (Inr (Some result, None),
                         emit (ExecuteReturned (Some result) None) (emit ConnClosed s))))))"

text \<open>
  \<^verbatim>\<open>get_sql_query_from_openai\<close>, lines 45 to 72. In the \<^verbatim>\<open>else\<close> branch the f-string of
  line 71 evaluates \<^verbatim>\<open>response.json()\<close> before \<^verbatim>\<open>None\<close> is returned.
\<close>

definition get_sql_query_from_openai ::
  "world \<Rightarrow> json \<Rightarrow> state \<Rightarrow> (exn + string option) \<times> state" where
  "get_sql_query_from_openai w user_input s0 =
     (let s = emit (GenerateCalled user_input) s0
      in case post_generate w (openai_api_key (bot s)) user_input of
           Inl e \<Rightarrow> (Inl e, s)
         | Inr response \<Rightarrow>
             if status_code response = 200
             then (case json_body response of
                     Inl e \<Rightarrow> (Inl e, s)
                   | Inr j \<Rightarrow>
                       (case first_choice_content j of
                          Inl e \<Rightarrow> (Inl e, s)
                        | Inr (JStr content) \<Rightarrow>
                            (Inr (Some (clean_sql content)),
                             emit (GenerateReturned (Some (clean_sql content))) s)
                        | Inr v \<Rightarrow> (Inl (no_attribute v ''strip''), s)))
             else (case json_body response of
                     Inl e \<Rightarrow> (Inl e, s)
                   | Inr j \<Rightarrow> (Inr None, emit (GenerateReturned None) s)))"

text \<open>
  \<^verbatim>\<open>get_enhanced_response\<close>, lines 74 to 96: the content of the first choice as it is,
  or \<^verbatim>\<open>None\<close> for a status other than 200.
\<close>

definition get_enhanced_response ::
  "world \<Rightarrow> row list option \<Rightarrow> state \<Rightarrow> (exn + json) \<times> state" where
  "get_enhanced_response w query_result s0 =
     (let s = emit (ExplainCalled query_result) s0
      in case post_explain w (openai_api_key (bot s)) query_result of
           Inl e \<Rightarrow> (Inl e, s)
         | Inr response \<Rightarrow>
             if status_code response = 200
             then (case json_body response of
                     Inl e \<Rightarrow> (Inl e, s)
                   | Inr j \<Rightarrow>
                       (case first_choice_content j of
                          Inl e \<Rightarrow> (Inl e, s)
                        | Inr content \<Rightarrow> (Inr content, emit (ExplainReturned content) s)))
             else (case json_body response of
                     Inl e \<Rightarrow> (Inl e, s)
                   | Inr j \<Rightarrow> (Inr JNull, emit (ExplainReturned JNull) s)))"

section \<open>The handler\<close>

datatype body =
    ErrorBody string
  | DataBody "row list option" json

record response =
  status :: nat
  body :: body

definition msg_missing_input :: string where
  "msg_missing_input =
     ''Falta el par'' @ [CHR 0xE1] @ ''metro '' @ [CHR 0x27] @ ''userInput'' @ [CHR 0x27]"

definition msg_no_sql :: string where
  "msg_no_sql = ''No se pudo generar la consulta SQL''"

definition msg_general :: string where
  "msg_general = ''Error general: ''"

text \<open>
  \<^verbatim>\<open>jsonify({"data": results, "enhanced_response": detailed_response})\<close> of line 123.
  The encoder writes the rows in order and the keys of each \<^verbatim>\<open>dict\<close> sorted, and raises
  a \<^verbatim>\<open>TypeError\<close> at the first value of a type it does not write. The explanation came
  out of JSON and is always written, as are the strings of the error replies.
  \<^verbatim>\<open>jsonify\<close> without a status is a 200.
\<close>

fun refused :: "cell \<Rightarrow> string option" where
  "refused (COther type_name) = Some type_name"
| "refused c = None"

definition encoder_visits :: "row list option \<Rightarrow> cell list" where
  "encoder_visits results =
     (case results of
        None \<Rightarrow> []
      | Some recs \<Rightarrow> concat (map (\<lambda>r. map snd (sort_key fst r)) recs))"

definition jsonify_data :: "row list option \<Rightarrow> json \<Rightarrow> exn + response" where
  "jsonify_data results detailed_response =
     (case List.map_filter refused (encoder_visits results) of
        [] \<Rightarrow> Inr \<lparr>status = 200, body = DataBody results detailed_response\<rparr>
      | type_name # rest \<Rightarrow>
          Inl (Exn TypeError (''Object of type '' @ type_name @ '' is not JSON serializable'')))"

text \<open>Every value of the rows is of a type that the encoder writes.\<close>

definition serialisable :: "row list option \<Rightarrow> bool" where
  "serialisable results =
     (case results of
        None \<Rightarrow> True
      | Some recs \<Rightarrow> list_all (\<lambda>r. list_all (\<lambda>kv. refused (snd kv) = None) r) recs)"

text \<open>
  The body of the \<^verbatim>\<open>try\<close> of lines 110 to 123. \<open>Inl\<close> is an exception that reaches the
  \<^verbatim>\<open>except\<close> of line 125.
\<close>

definition try_body :: "world \<Rightarrow> json \<Rightarrow> state \<Rightarrow> (exn + response) \<times> state" where
  "try_body w user_input s0 =
     (case get_sql_query_from_openai w user_input s0 of
        (Inl e, s1) \<Rightarrow> (Inl e, s1)
      | (Inr sql_query, s1) \<Rightarrow>
          (case sql_query of
             None \<Rightarrow> (Inr \<lparr>status = 500, body = ErrorBody msg_no_sql\<rparr>, s1)
           | Some q \<Rightarrow>
               if q = [] then (Inr \<lparr>status = 500, body = ErrorBody msg_no_sql\<rparr>, s1)
               else
                 (case execute_query w q s1 of
                    (Inl e, s2) \<Rightarrow> (Inl e, s2)
                  | (Inr (results, db_error), s2) \<Rightarrow>
                      if truthy_str db_error
                      then (Inr \<lparr>status = 500,
                                 body = ErrorBody (case db_error of Some m \<Rightarrow> m | None \<Rightarrow> [])\<rparr>, s2)
                      else
                        (case get_enhanced_response w results s2 of
                           (Inl e, s3) \<Rightarrow> (Inl e, s3)
                         | (Inr detailed_response, s3) \<Rightarrow>
                             (jsonify_data results detailed_response, s3)))))"

text \<open>
  \<^verbatim>\<open>query_database\<close>, lines 101 to 126, on the parsed body \<^verbatim>\<open>request.json\<close>. Lines 103
  to 107 stand before the \<^verbatim>\<open>try\<close>: an exception raised there leaves the handler
  (\<open>Inl\<close>). An exception of the \<^verbatim>\<open>try\<close> body becomes the response of line 126.
\<close>

definition query_database :: "world \<Rightarrow> json \<Rightarrow> state \<Rightarrow> (exn + response) \<times> state" where
  "query_database w data s =
     (case py_get data ''userInput'' of
        Inl e \<Rightarrow> (Inl e, s)
      | Inr user_input \<Rightarrow>
          if \<not> truthy user_input
          then (Inr \<lparr>status = 400, body = ErrorBody msg_missing_input\<rparr>, s)
          else
            (case try_body w user_input s of
               (Inl e, s') \<Rightarrow>
                 (Inr \<lparr>status = 500, body = ErrorBody (msg_general @ exn_text e)\<rparr>, s')
             | (Inr r, s') \<Rightarrow> (Inr r, s')))"

section \<open>Steps of the handler\<close>

text \<open>
  The handler's sequence, and \<open>raises_at w data s st e\<close>: in the run on \<open>data\<close>, step
  \<open>st\<close> is reached and its call raises \<open>e\<close>.
\<close>

datatype step = InputParsing | SqlGeneration | QueryExecution | Explanation

fun raises_at :: "world \<Rightarrow> json \<Rightarrow> state \<Rightarrow> step \<Rightarrow> exn \<Rightarrow> bool" where
  "raises_at w data s InputParsing e = (py_get data ''userInput'' = Inl e)"
| "raises_at w data s SqlGeneration e =
     (case py_get data ''userInput'' of
        Inl x \<Rightarrow> False
      | Inr ui \<Rightarrow> truthy ui \<and> fst (get_sql_query_from_openai w ui s) = Inl e)"
| "raises_at w data s QueryExecution e =
     (case py_get data ''userInput'' of
        Inl x \<Rightarrow> False
      | Inr ui \<Rightarrow>
          truthy ui \<and>
          (case get_sql_query_from_openai w ui s of
             (Inr (Some q), s1) \<Rightarrow> q \<noteq> [] \<and> fst (execute_query w q s1) = Inl e
           | (g, s1) \<Rightarrow> False))"
| "raises_at w data s Explanation e =
     (case py_get data ''userInput'' of
        Inl x \<Rightarrow> False
      | Inr ui \<Rightarrow>
          truthy ui \<and>
          (case get_sql_query_from_openai w ui s of
             (Inr (Some q), s1) \<Rightarrow>
               q \<noteq> [] \<and>
               (case execute_query w q s1 of
                  (Inr (res, err), s2) \<Rightarrow>
                    \<not> truthy_str err \<and> fst (get_enhanced_response w res s2) = Inl e
                | (r, s2) \<Rightarrow> False)
           | (g, s1) \<Rightarrow> False))"

section \<open>A request and its worlds\<close>

text \<open>
  The scenario of the service's description: the question about users older than 30,
  a generator that answers with a fenced query, a database with two matching rows, an
  explainer that answers with a sentence. The other worlds differ from it in one call.
\<close>

definition chat_reply :: "json \<Rightarrow> http_response" where
  "chat_reply content =
     \<lparr>status_code = 200,
      json_body =
        Inr (JObj [(''choices'', JArr [JObj [(''message'', JObj [(''content'', content)])]])])\<rparr>"

definition error_reply :: http_response where
  "error_reply =
     \<lparr>status_code = 429,
      json_body = Inr (JObj [(''error'', JObj [(''message'', JStr ''Rate limit reached'')])])\<rparr>"

definition html_reply :: http_response where
  "html_reply =
     \<lparr>status_code = 502,
      json_body = Inl (Exn JSONDecodeError ''Expecting value: line 1 column 1 (char 0)'')\<rparr>"

definition demo_bot :: SQLChatBot where
  "demo_bot = \<lparr>db_url = Some ''postgresql://app@db/app'', openai_api_key = Some ''sk-test''\<rparr>"

definition demo_request :: json where
  "demo_request = JObj [(''userInput'', JStr ''show all users older than 30'')]"

definition demo_sql :: string where
  "demo_sql = ''SELECT * FROM usuarios WHERE edad > 30;''"

text \<open>The generator's reply, a fenced block, and what line 68 makes of it.\<close>

definition demo_content :: string where
  "demo_content = ''```sql'' @ [CHR 0x0A] @ demo_sql @ [CHR 0x0A] @ ''```''"

definition demo_query :: string where
  "demo_query = [CHR 0x0A] @ demo_sql @ [CHR 0x0A]"

definition demo_cursor :: cursor where
  "demo_cursor =
     \<lparr>description = Some [(''id'', 23), (''nombre'', 1043), (''email'', 1043), (''edad'', 23)],
      fetched = [[CInt 1, CText ''Ana'', CText ''ana@example.com'', CInt 41],
                 [CInt 2, CText ''Luis'', CText ''luis@example.com'', CInt 35]]\<rparr>"

definition demo_rows :: "row list" where
  "demo_rows =
     [[(''id'', CInt 1), (''nombre'', CText ''Ana''), (''email'', CText ''ana@example.com''),
       (''edad'', CInt 41)],
      [(''id'', CInt 2), (''nombre'', CText ''Luis''), (''email'', CText ''luis@example.com''),
       (''edad'', CInt 35)]]"

definition demo_world :: world where
  "demo_world =
     \<lparr>post_generate = (\<lambda>key user_input. Inr (chat_reply (JStr demo_content))),
      post_explain = (\<lambda>key rows. Inr (chat_reply (JStr ''Hay dos usuarios mayores de 30.''))),
      pg_connect = (\<lambda>url. Inr ()),
      pg_cursor = (\<lambda>sql. Inr demo_cursor)\<rparr>"

definition syntax_error :: exn where
  "syntax_error = Exn PsycopgError ''syntax error at or near SELEC''"

definition world_db_error :: world where
  "world_db_error = demo_world\<lparr>pg_cursor := (\<lambda>sql. Inl syntax_error)\<rparr>"

definition world_no_sql :: world where
  "world_no_sql = demo_world\<lparr>post_generate := (\<lambda>key user_input. Inr error_reply)\<rparr>"

definition world_no_explanation :: world where
  "world_no_explanation = demo_world\<lparr>post_explain := (\<lambda>key rows. Inr error_reply)\<rparr>"

definition world_bad_gateway :: world where
  "world_bad_gateway = demo_world\<lparr>post_generate := (\<lambda>key user_input. Inr html_reply)\<rparr>"

text \<open>
  A query for the time of day: the driver gives a \<^verbatim>\<open>datetime.time\<close>. In this world the
  explainer is refused as well.
\<close>

definition time_cursor :: cursor where
  "time_cursor = \<lparr>description = Some [(''current_time'', 1266)], fetched = [[COther ''time'']]\<rparr>"

definition time_rows :: "row list" where
  "time_rows = [[(''current_time'', COther ''time'')]]"

definition world_time_no_explanation :: world where
  "world_time_no_explanation =
     demo_world\<lparr>pg_cursor := (\<lambda>sql. Inr time_cursor),
                post_explain := (\<lambda>key rows. Inr error_reply)\<rparr>"

definition world_explainer_down :: world where
  "world_explainer_down =
     demo_world\<lparr>post_explain := (\<lambda>key rows. Inl (Exn RequestException ''Connection refused''))\<rparr>"

section \<open>How a method ends\<close>

text \<open>
  Each method either raises or returns, and its events follow from that alone.
\<close>

lemma trace_emit [simp]: "trace (emit ev s) = trace s @ [ev]"
  by (simp add: emit_def)

lemma bot_emit [simp]: "bot (emit ev s) = bot s"
  by (simp add: emit_def)

lemma get_sql_cases [consumes 1, case_names raised returned]:
  assumes "get_sql_query_from_openai w ui s = (r, s')"
  obtains e where "r = Inl e" "s' = emit (GenerateCalled ui) s"
    | x where "r = Inr x" "s' = emit (GenerateReturned x) (emit (GenerateCalled ui) s)"
  using assms unfolding get_sql_query_from_openai_def Let_def
  by (auto split: sum.splits if_splits json.splits)

lemma explain_shape:
  "get_enhanced_response w res s = (r, s') \<Longrightarrow>
     (\<exists>e. r = Inl e \<and> s' = emit (ExplainCalled res) s) \<or>
     (\<exists>x. r = Inr x \<and> s' = emit (ExplainReturned x) (emit (ExplainCalled res) s))"
  unfolding get_enhanced_response_def Let_def
  by (auto split: sum.splits if_splits) metis+

lemma explain_cases [consumes 1, case_names raised returned]:
  assumes "get_enhanced_response w res s = (r, s')"
  obtains e where "r = Inl e" "s' = emit (ExplainCalled res) s"
    | x where "r = Inr x" "s' = emit (ExplainReturned x) (emit (ExplainCalled res) s)"
  using explain_shape [OF assms] by blast

lemma execute_shape:
  "execute_query w q s = (r, s') \<Longrightarrow>
     (\<exists>e. r = Inl e \<and> s' = emit (ExecuteCalled q) s) \<or>
     (\<exists>e. r = Inl e \<and> s' = emit ConnOpened (emit (ExecuteCalled q) s)) \<or>
     (r = Inr (None, Some msg_no_connection) \<and>
        s' = emit (ExecuteReturned None (Some msg_no_connection)) (emit (ExecuteCalled q) s)) \<or>
     (\<exists>e. r = Inr (None, Some (msg_db_error @ exn_text e)) \<and>
        s' = emit (ExecuteReturned None (Some (msg_db_error @ exn_text e)))
               (emit ConnOpened (emit (ExecuteCalled q) s))) \<or>
     (\<exists>recs. r = Inr (Some recs, None) \<and>
        s' = emit (ExecuteReturned (Some recs) None)
               (emit ConnClosed (emit ConnOpened (emit (ExecuteCalled q) s))))"
  unfolding execute_query_def connect_db_def Let_def
  by (auto split: sum.splits if_splits option.splits)


lemma msg_no_connection_nonempty: "msg_no_connection \<noteq> []"
  by (simp add: msg_no_connection_def)

lemma msg_db_error_nonempty: "msg_db_error @ t \<noteq> []"
  by (simp add: msg_db_error_def)

lemma execute_cases [consumes 1]:
  assumes "execute_query w q s = (r, s')"
  obtains
    (raised) e c where "r = Inl e" "bot s' = bot s" "trace s' = trace s @ ExecuteCalled q # c"
      "c = [] \<or> c = [ConnOpened]"
  | (failed) m c where "r = Inr (None, Some m)" "m \<noteq> []" "bot s' = bot s"
      "trace s' = trace s @ ExecuteCalled q # c @ [ExecuteReturned None (Some m)]"
      "c = [] \<or> c = [ConnOpened]"
  | (fetched) recs where "r = Inr (Some recs, None)" "bot s' = bot s"
      "trace s' =
         trace s @ [ExecuteCalled q, ConnOpened, ConnClosed, ExecuteReturned (Some recs) None]"
  using execute_shape [OF assms]
proof (elim disjE exE conjE)
  fix e assume "r = Inl e" "s' = emit (ExecuteCalled q) s"
  then show ?thesis using raised [of e "[]"] by simp
next
  fix e assume "r = Inl e" "s' = emit ConnOpened (emit (ExecuteCalled q) s)"
  then show ?thesis using raised [of e "[ConnOpened]"] by simp
next
  assume "r = Inr (None, Some msg_no_connection)"
    "s' = emit (ExecuteReturned None (Some msg_no_connection)) (emit (ExecuteCalled q) s)"
  then show ?thesis
    using failed [of msg_no_connection "[]"] msg_no_connection_nonempty by simp
next
  fix e assume "r = Inr (None, Some (msg_db_error @ exn_text e))"
    "s' = emit (ExecuteReturned None (Some (msg_db_error @ exn_text e)))
            (emit ConnOpened (emit (ExecuteCalled q) s))"
  then show ?thesis
    using failed [of "msg_db_error @ exn_text e" "[ConnOpened]"] msg_db_error_nonempty by simp
next
  fix recs assume "r = Inr (Some recs, None)"
    "s' = emit (ExecuteReturned (Some recs) None)
            (emit ConnClosed (emit ConnOpened (emit (ExecuteCalled q) s)))"
  then show ?thesis using fetched [of recs] by simp
qed

section \<open>Writing the rows\<close>

lemma map_filter_empty: "List.map_filter f xs = [] \<longleftrightarrow> (\<forall>x \<in> set xs. f x = None)"
  by (induction xs) (auto simp: map_filter_simps split: option.splits)

lemma serialisable_visits:
  "serialisable results \<longleftrightarrow> List.map_filter refused (encoder_visits results) = []"
  by (cases results)
     (auto simp: serialisable_def encoder_visits_def map_filter_empty list_all_iff)

lemma jsonify_serialisable:
  "serialisable results \<Longrightarrow>
     jsonify_data results v = Inr \<lparr>status = 200, body = DataBody results v\<rparr>"
  by (simp add: jsonify_data_def serialisable_visits)

lemma jsonify_not_serialisable:
  assumes "\<not> serialisable results"
  shows "\<exists>e. jsonify_data results v = Inl e"
  using assms by (auto simp: jsonify_data_def serialisable_visits split: list.splits)

section \<open>The ways through the handler\<close>

lemma query_database_paths [consumes 1]:
  assumes "query_database w data s = (out, s')"
  obtains
    (escaped) e where "py_get data ''userInput'' = Inl e" "out = Inl e" "s' = s"
  | (missing) ui where "py_get data ''userInput'' = Inr ui" "\<not> truthy ui"
      "out = Inr \<lparr>status = 400, body = ErrorBody msg_missing_input\<rparr>" "s' = s"
  | (generate_raised) ui e where "py_get data ''userInput'' = Inr ui" "truthy ui"
      "get_sql_query_from_openai w ui s = (Inl e, s')"
      "out = Inr \<lparr>status = 500, body = ErrorBody (msg_general @ exn_text e)\<rparr>"
  | (no_sql) ui x where "py_get data ''userInput'' = Inr ui" "truthy ui"
      "get_sql_query_from_openai w ui s = (Inr x, s')" "\<not> truthy_str x"
      "out = Inr \<lparr>status = 500, body = ErrorBody msg_no_sql\<rparr>"
  | (execute_raised) ui q s1 e where "py_get data ''userInput'' = Inr ui" "truthy ui"
      "get_sql_query_from_openai w ui s = (Inr (Some q), s1)" "q \<noteq> []"
      "execute_query w q s1 = (Inl e, s')"
      "out = Inr \<lparr>status = 500, body = ErrorBody (msg_general @ exn_text e)\<rparr>"
  | (db_error) ui q s1 res m where "py_get data ''userInput'' = Inr ui" "truthy ui"
      "get_sql_query_from_openai w ui s = (Inr (Some q), s1)" "q \<noteq> []"
      "execute_query w q s1 = (Inr (res, Some m), s')" "m \<noteq> []"
      "out = Inr \<lparr>status = 500, body = ErrorBody m\<rparr>"
  | (explain_raised) ui q s1 res err s2 e where "py_get data ''userInput'' = Inr ui" "truthy ui"
      "get_sql_query_from_openai w ui s = (Inr (Some q), s1)" "q \<noteq> []"
      "execute_query w q s1 = (Inr (res, err), s2)" "\<not> truthy_str err"
      "get_enhanced_response w res s2 = (Inl e, s')"
      "out = Inr \<lparr>status = 500, body = ErrorBody (msg_general @ exn_text e)\<rparr>"
  | (jsonify_raised) ui q s1 res err s2 v e where "py_get data ''userInput'' = Inr ui"
      "truthy ui"
      "get_sql_query_from_openai w ui s = (Inr (Some q), s1)" "q \<noteq> []"
      "execute_query w q s1 = (Inr (res, err), s2)" "\<not> truthy_str err"
      "get_enhanced_response w res s2 = (Inr v, s')" "\<not> serialisable res"
      "out = Inr \<lparr>status = 500, body = ErrorBody (msg_general @ exn_text e)\<rparr>"
  | (success) ui q s1 res err s2 v where "py_get data ''userInput'' = Inr ui" "truthy ui"
      "get_sql_query_from_openai w ui s = (Inr (Some q), s1)" "q \<noteq> []"
      "execute_query w q s1 = (Inr (res, err), s2)" "\<not> truthy_str err"
      "get_enhanced_response w res s2 = (Inr v, s')" "serialisable res"
      "out = Inr \<lparr>status = 200, body = DataBody res v\<rparr>"
proof (cases "py_get data ''userInput''")
  case (Inl e)
  with assms escaped show ?thesis
    by (simp add: query_database_def)
next
  case ui: (Inr ui)
  show ?thesis
  proof (cases "truthy ui")
    case False
    with assms ui missing show ?thesis
      by (simp add: query_database_def)
  next
    case True
    obtain g s1 where g: "get_sql_query_from_openai w ui s = (g, s1)"
      by (cases "get_sql_query_from_openai w ui s")
    show ?thesis
    proof (cases g)
      case (Inl e)
      with assms ui True g generate_raised [of ui e] show ?thesis
        by (simp add: query_database_def try_body_def)
    next
      case gx: (Inr x)
      show ?thesis
      proof (cases "truthy_str x")
        case False
        with assms ui True g gx no_sql [of ui x] show ?thesis
          by (cases x) (simp_all add: query_database_def try_body_def)
      next
        case tx: True
        then obtain q where q: "x = Some q" "q \<noteq> []"
          by (cases x) simp_all
        obtain r s2 where r: "execute_query w q s1 = (r, s2)"
          by (cases "execute_query w q s1")
        show ?thesis
        proof (cases r)
          case (Inl e)
          with assms ui True g gx q r execute_raised [of ui q s1 e] show ?thesis
            by (simp add: query_database_def try_body_def)
        next
          case rr: (Inr p)
          obtain res err where p: "p = (res, err)"
            by (cases p)
          show ?thesis
          proof (cases "truthy_str err")
            case te: True
            then obtain m where m: "err = Some m" "m \<noteq> []"
              by (cases err) simp_all
            with assms ui True g gx q r rr p db_error [of ui q s1 res m] show ?thesis
              by (simp add: query_database_def try_body_def)
          next
            case fe: False
            obtain d s3 where d: "get_enhanced_response w res s2 = (d, s3)"
              by (cases "get_enhanced_response w res s2")
            show ?thesis
            proof (cases d)
              case (Inl e)
              with assms ui True g gx q r rr p fe d explain_raised [of ui q s1 res err s2 e]
              show ?thesis
                by (simp add: query_database_def try_body_def)
            next
              case dv: (Inr v)
              show ?thesis
              proof (cases "serialisable res")
                case False
                then obtain e where "jsonify_data res v = Inl e"
                  using jsonify_not_serialisable by blast
                with assms ui True g gx q r rr p fe d dv False
                  jsonify_raised [of ui q s1 res err s2 v e]
                show ?thesis
                  by (simp add: query_database_def try_body_def)
              next
                case sr: True
                then have "jsonify_data res v = Inr \<lparr>status = 200, body = DataBody res v\<rparr>"
                  by (rule jsonify_serialisable)
                with assms ui True g gx q r rr p fe d dv sr
                  success [of ui q s1 res err s2 v]
                show ?thesis
                  by (simp add: query_database_def try_body_def)
              qed
            qed
          qed
        qed
      qed
    qed
  qed
qed


text \<open>The nine ways through the handler, each with its response and its trace.\<close>

lemma query_database_runs [consumes 1]:
  assumes "query_database w data s = (out, s')"
  obtains
    (escaped) e where "py_get data ''userInput'' = Inl e" "out = Inl e" "s' = s"
  | (missing) ui where "py_get data ''userInput'' = Inr ui" "\<not> truthy ui"
      "out = Inr \<lparr>status = 400, body = ErrorBody msg_missing_input\<rparr>" "s' = s"
  | (generate_raised) ui e where "py_get data ''userInput'' = Inr ui" "truthy ui"
      "out = Inr \<lparr>status = 500, body = ErrorBody (msg_general @ exn_text e)\<rparr>"
      "bot s' = bot s" "trace s' = trace s @ [GenerateCalled ui]"
  | (no_sql) ui x where "py_get data ''userInput'' = Inr ui" "truthy ui" "\<not> truthy_str x"
      "out = Inr \<lparr>status = 500, body = ErrorBody msg_no_sql\<rparr>"
      "bot s' = bot s" "trace s' = trace s @ [GenerateCalled ui, GenerateReturned x]"
  | (execute_raised) ui q e c where "py_get data ''userInput'' = Inr ui" "truthy ui" "q \<noteq> []"
      "out = Inr \<lparr>status = 500, body = ErrorBody (msg_general @ exn_text e)\<rparr>"
      "bot s' = bot s"
      "trace s' = trace s @ [GenerateCalled ui, GenerateReturned (Some q), ExecuteCalled q] @ c"
      "c = [] \<or> c = [ConnOpened]"
  | (db_error) ui q m c where "py_get data ''userInput'' = Inr ui" "truthy ui" "q \<noteq> []"
      "m \<noteq> []" "out = Inr \<lparr>status = 500, body = ErrorBody m\<rparr>"
      "bot s' = bot s"
      "trace s' = trace s @ [GenerateCalled ui, GenerateReturned (Some q), ExecuteCalled q] @ c @
         [ExecuteReturned None (Some m)]"
      "c = [] \<or> c = [ConnOpened]"
  | (explain_raised) ui q recs e where "py_get data ''userInput'' = Inr ui" "truthy ui"
      "q \<noteq> []"
      "out = Inr \<lparr>status = 500, body = ErrorBody (msg_general @ exn_text e)\<rparr>"
      "bot s' = bot s"
      "trace s' = trace s @ [GenerateCalled ui, GenerateReturned (Some q), ExecuteCalled q,
         ConnOpened, ConnClosed, ExecuteReturned (Some recs) None, ExplainCalled (Some recs)]"
  | (jsonify_raised) ui q recs v e where "py_get data ''userInput'' = Inr ui" "truthy ui"
      "q \<noteq> []" "\<not> serialisable (Some recs)"
      "out = Inr \<lparr>status = 500, body = ErrorBody (msg_general @ exn_text e)\<rparr>"
      "bot s' = bot s"
      "trace s' = trace s @ [GenerateCalled ui, GenerateReturned (Some q), ExecuteCalled q,
         ConnOpened, ConnClosed, ExecuteReturned (Some recs) None, ExplainCalled (Some recs),
         ExplainReturned v]"
  | (success) ui q recs v where "py_get data ''userInput'' = Inr ui" "truthy ui" "q \<noteq> []"
      "out = Inr \<lparr>status = 200, body = DataBody (Some recs) v\<rparr>"
      "bot s' = bot s"
      "trace s' = trace s @ [GenerateCalled ui, GenerateReturned (Some q), ExecuteCalled q,
         ConnOpened, ConnClosed, ExecuteReturned (Some recs) None, ExplainCalled (Some recs),
         ExplainReturned v]"
      "\<exists>s1 s2. execute_query w q s1 = (Inr (Some recs, None), s2)"
  using assms
proof (cases rule: query_database_paths)
  case (escaped e)
  then show ?thesis by (rule that(1))
next
  case (missing ui)
  then show ?thesis by (rule that(2))
next
  case (generate_raised ui e)
  from generate_raised(3) have "s' = emit (GenerateCalled ui) s"
    by (cases rule: get_sql_cases) simp_all
  with generate_raised show ?thesis by (intro that(3) [of ui e]) simp_all
next
  case (no_sql ui x)
  from no_sql(3) have "s' = emit (GenerateReturned x) (emit (GenerateCalled ui) s)"
    by (cases rule: get_sql_cases) simp_all
  with no_sql show ?thesis by (intro that(4) [of ui x]) simp_all
next
  case (execute_raised ui q s1 e)
  from execute_raised(3) have s1: "s1 = emit (GenerateReturned (Some q)) (emit (GenerateCalled ui) s)"
    by (cases rule: get_sql_cases) simp_all
  from execute_raised(5) show ?thesis
  proof (cases rule: execute_cases)
    case (raised e' c)
    with execute_raised s1 show ?thesis by (intro that(5) [of ui q e c]) simp_all
  qed simp_all
next
  case (db_error ui q s1 res m)
  from db_error(3) have s1: "s1 = emit (GenerateReturned (Some q)) (emit (GenerateCalled ui) s)"
    by (cases rule: get_sql_cases) simp_all
  from db_error(5) show ?thesis
  proof (cases rule: execute_cases)
    case (failed m' c)
    with db_error s1 show ?thesis by (intro that(6) [of ui q m c]) simp_all
  qed (use db_error in simp_all)
next
  case (explain_raised ui q s1 res err s2 e)
  from explain_raised(3) have s1: "s1 = emit (GenerateReturned (Some q)) (emit (GenerateCalled ui) s)"
    by (cases rule: get_sql_cases) simp_all
  from explain_raised(7) have s': "s' = emit (ExplainCalled res) s2"
    by (cases rule: explain_cases) simp_all
  from explain_raised(5) show ?thesis
  proof (cases rule: execute_cases)
    case (fetched recs)
    with explain_raised s1 s' show ?thesis by (intro that(7) [of ui q e recs]) simp_all
  qed (use explain_raised in simp_all)
next
  case (jsonify_raised ui q s1 res err s2 v e)
  from jsonify_raised(3)
  have s1: "s1 = emit (GenerateReturned (Some q)) (emit (GenerateCalled ui) s)"
    by (cases rule: get_sql_cases) simp_all
  from jsonify_raised(7) have s': "s' = emit (ExplainReturned v) (emit (ExplainCalled res) s2)"
    by (cases rule: explain_cases) simp_all
  note ns = jsonify_raised(8)
  from jsonify_raised(5) show ?thesis
  proof (cases rule: execute_cases)
    case (fetched recs)
    with jsonify_raised s1 s' ns show ?thesis by (intro that(8) [of ui q recs e v]) simp_all
  qed (use jsonify_raised in simp_all)
next
  case (success ui q s1 res err s2 v)
  from success(3) have s1: "s1 = emit (GenerateReturned (Some q)) (emit (GenerateCalled ui) s)"
    by (cases rule: get_sql_cases) simp_all
  from success(7) have s': "s' = emit (ExplainReturned v) (emit (ExplainCalled res) s2)"
    by (cases rule: explain_cases) simp_all
  from success(5) show ?thesis
  proof (cases rule: execute_cases)
    case (fetched recs)
    with success s1 s' show ?thesis by (intro that(9) [of ui q recs v]) auto
  qed (use success in simp_all)
qed


section \<open>Records of a result\<close>

lemma py_dict_fold_keys:
  "fst ` set (fold (\<lambda>(k, v). AList.update k v) kvs acc) = fst ` set kvs \<union> fst ` set acc"
proof (induction kvs arbitrary: acc)
  case Nil
  then show ?case by simp
next
  case (Cons p kvs)
  obtain k v where p: "p = (k, v)"
    by (cases p)
  have "fst ` set (fold (\<lambda>(k, v). AList.update k v) (p # kvs) acc) =
          fst ` set kvs \<union> fst ` set (AList.update k v acc)"
    by (simp add: p Cons.IH)
  also have "\<dots> = fst ` set (p # kvs) \<union> fst ` set acc"
    by (simp add: p dom_update Un_ac insert_commute)
  finally show ?case .
qed

lemma py_dict_keys: "fst ` set (py_dict kvs) = fst ` set kvs"
  by (simp add: py_dict_def py_dict_fold_keys)

lemma zip_keys: "length r = length cols \<Longrightarrow> fst ` set (zip cols r) = set cols"
  by (metis map_fst_zip set_map)

lemma execute_query_records:
  assumes "execute_query w q s = (Inr (Some recs, None), s')"
  shows "\<exists>cur descr. pg_cursor w q = Inr cur \<and> description cur = Some descr \<and>
           recs = map (\<lambda>r. py_dict (zip (map fst descr) r)) (fetched cur)"
  using assms unfolding execute_query_def connect_db_def Let_def
  by (auto split: sum.splits if_splits option.splits)

section \<open>Cleaning the generated query\<close>

text \<open>
  After line 68 no \<^verbatim>\<open>```\<close> is left in the string, hence no \<^verbatim>\<open>```sql\<close> either: a
  match of the second \<^verbatim>\<open>replace\<close> never follows a backtick that was kept.
\<close>

lemma py_replace_step:
  assumes "\<not> prefix old (c # cs)"
  shows "py_replace old new (c # cs) = c # py_replace old new cs"
proof -
  from assms have "\<not> (old \<noteq> [] \<and> prefix old (c # cs))"
    by blast
  then show ?thesis
    by (subst py_replace.simps(2)) (rule if_not_P)
qed

lemma py_replace_skip:
  assumes "old \<noteq> []" and "prefix old (c # cs)"
  shows "py_replace old new (c # cs) = new @ py_replace old new (drop (length old) (c # cs))"
proof -
  from assms have "old \<noteq> [] \<and> prefix old (c # cs)"
    by blast
  then show ?thesis
    by (subst py_replace.simps(2)) (rule if_P)
qed

lemma replace_triple_head:
  assumes "py_replace [b, b, b] [] s = b # t"
  shows "\<exists>cs. s = b # cs"
proof (cases s)
  case Nil
  with assms show ?thesis by simp
next
  case (Cons c cs)
  show ?thesis
  proof (cases "prefix [b, b, b] (c # cs)")
    case True
    then show ?thesis by (simp add: Cons)
  next
    case False
    from assms have "c # py_replace [b, b, b] [] cs = b # t"
      unfolding Cons py_replace_step [OF False] .
    then show ?thesis by (simp add: Cons)
  qed
qed

lemma replace_triple_no_prefix: "\<not> prefix [b, b, b] (py_replace [b, b, b] [] s)"
proof (induction s rule: length_induct)
  case (1 s)
  show ?case
  proof (cases s)
    case Nil
    then show ?thesis by simp
  next
    case (Cons c cs)
    show ?thesis
    proof (cases "prefix [b, b, b] (c # cs)")
      case True
      have "length (drop (length [b, b, b]) (c # cs)) < length s"
        by (simp add: Cons)
      with 1 have "\<not> prefix [b, b, b] (py_replace [b, b, b] [] (drop (length [b, b, b]) (c # cs)))"
        by blast
      moreover have "py_replace [b, b, b] [] s =
          [] @ py_replace [b, b, b] [] (drop (length [b, b, b]) (c # cs))"
        unfolding Cons by (rule py_replace_skip [OF _ True]) simp
      ultimately show ?thesis
        by simp
    next
      case False
      show ?thesis
      proof
        assume "prefix [b, b, b] (py_replace [b, b, b] [] s)"
        then have p: "prefix [b, b, b] (c # py_replace [b, b, b] [] cs)"
          unfolding Cons py_replace_step [OF False] .
        then obtain t where c: "c = b" and t: "py_replace [b, b, b] [] cs = b # b # t"
          by (auto simp: prefix_Cons prefix_def)
        from replace_triple_head [OF t] obtain cs' where cs: "cs = b # cs'"
          by auto
        from False c cs have n: "\<not> prefix [b] cs'"
          by simp
        then have "\<not> prefix [b, b, b] (b # cs')"
          by (cases cs') simp_all
        then have "py_replace [b, b, b] [] (b # cs') = b # py_replace [b, b, b] [] cs'"
          by (rule py_replace_step)
        with t cs have "py_replace [b, b, b] [] cs' = b # t"
          by simp
        from replace_triple_head [OF this] n show False
          by auto
      qed
    qed
  qed
qed

lemma replace_triple_none: "\<not> sublist [b, b, b] (py_replace [b, b, b] [] s)"
proof (induction s rule: length_induct)
  case (1 s)
  show ?case
  proof (cases s)
    case Nil
    then show ?thesis by simp
  next
    case (Cons c cs)
    show ?thesis
    proof (cases "prefix [b, b, b] (c # cs)")
      case True
      have "length (drop (length [b, b, b]) (c # cs)) < length s"
        by (simp add: Cons)
      with 1 have "\<not> sublist [b, b, b] (py_replace [b, b, b] [] (drop (length [b, b, b]) (c # cs)))"
        by blast
      moreover have "py_replace [b, b, b] [] s =
          [] @ py_replace [b, b, b] [] (drop (length [b, b, b]) (c # cs))"
        unfolding Cons by (rule py_replace_skip [OF _ True]) simp
      ultimately show ?thesis
        by simp
    next
      case False
      have eq: "py_replace [b, b, b] [] s = c # py_replace [b, b, b] [] cs"
        unfolding Cons by (rule py_replace_step [OF False])
      have "length cs < length s"
        by (simp add: Cons)
      with 1 have "\<not> sublist [b, b, b] (py_replace [b, b, b] [] cs)"
        by blast
      moreover from replace_triple_no_prefix [of b s]
      have "\<not> prefix [b, b, b] (c # py_replace [b, b, b] [] cs)"
        unfolding eq .
      ultimately show ?thesis
        unfolding eq sublist_Cons_right by blast
    qed
  qed
qed

lemma clean_sql_no_fence: "\<not> sublist fence (clean_sql s)"
  unfolding clean_sql_def fence_def by (rule replace_triple_none)

lemma clean_sql_no_fence_sql: "\<not> sublist fence_sql (clean_sql s)"
proof
  assume "sublist fence_sql (clean_sql s)"
  moreover have "sublist fence fence_sql"
    by (simp add: fence_def fence_sql_def sublist_Cons_right)
  ultimately have "sublist fence (clean_sql s)"
    by (rule sublist_order.order_trans [rotated])
  with clean_sql_no_fence show False by simp
qed

text \<open>What the generator returns, by the status of the reply.\<close>

lemma generator_returns_cleaned_content:
  assumes "post_generate w (openai_api_key (bot s)) ui = Inr r" and "status_code r = 200"
      and "json_body r = Inr j" and "first_choice_content j = Inr (JStr c)"
  shows "fst (get_sql_query_from_openai w ui s) = Inr (Some (clean_sql c))"
  using assms by (simp add: get_sql_query_from_openai_def)

lemma generator_returns_none_on_json_error:
  assumes "post_generate w (openai_api_key (bot s)) ui = Inr r" and "status_code r \<noteq> 200"
      and "json_body r = Inr j"
  shows "fst (get_sql_query_from_openai w ui s) = Inr None"
  using assms by (simp add: get_sql_query_from_openai_def)

section \<open>The connection\<close>

lemma fetched_rows_close_connection:
  assumes "execute_query w q s = (Inr (Some recs, None), s')"
  shows "trace s' =
           trace s @ [ExecuteCalled q, ConnOpened, ConnClosed, ExecuteReturned (Some recs) None]"
  using assms by (cases rule: execute_cases) simp_all

lemma database_error_leaves_connection:
  assumes "pg_connect w (db_url (bot s)) = Inr ()" and "pg_cursor w q = Inl e"
      and "is_psycopg_error e"
  shows "execute_query w q s =
           (Inr (None, Some (msg_db_error @ exn_text e)),
            s\<lparr>trace := trace s @
               [ExecuteCalled q, ConnOpened,
                ExecuteReturned None (Some (msg_db_error @ exn_text e))]\<rparr>)"
  using assms by (simp add: execute_query_def connect_db_def emit_def)

section \<open>Runs of the scenario\<close>

lemmas scenario_defs =
  demo_world_def demo_request_def demo_bot_def demo_cursor_def demo_rows_def chat_reply_def
  error_reply_def html_reply_def syntax_error_def world_db_error_def world_no_sql_def
  world_no_explanation_def world_bad_gateway_def world_explainer_down_def
  world_time_no_explanation_def time_cursor_def time_rows_def

lemmas method_defs =
  query_database_def try_body_def get_sql_query_from_openai_def execute_query_def
  connect_db_def get_enhanced_response_def first_choice_content_def start_def emit_def
  py_dict_def msg_db_error_def Let_def jsonify_serialisable serialisable_def

lemma clean_demo: "clean_sql demo_content = demo_query"
  by (simp add: clean_sql_def py_strip_def is_space_def fence_def fence_sql_def demo_sql_def
        demo_content_def demo_query_def)

lemma demo_query_nonempty: "demo_query \<noteq> []"
  by (simp add: demo_query_def)

lemma run_demo:
  "query_database demo_world demo_request (start demo_bot) =
     (Inr \<lparr>status = 200,
           body = DataBody (Some demo_rows) (JStr ''Hay dos usuarios mayores de 30.'')\<rparr>,
      \<lparr>bot = demo_bot,
       trace = [GenerateCalled (JStr ''show all users older than 30''),
                GenerateReturned (Some demo_query),
                ExecuteCalled demo_query, ConnOpened, ConnClosed,
                ExecuteReturned (Some demo_rows) None, ExplainCalled (Some demo_rows),
                ExplainReturned (JStr ''Hay dos usuarios mayores de 30.'')]\<rparr>)"
  by (simp add: method_defs scenario_defs clean_demo demo_query_nonempty)

lemma run_db_error:
  "query_database world_db_error demo_request (start demo_bot) =
     (Inr \<lparr>status = 500,
           body = ErrorBody ''Error en la base de datos: syntax error at or near SELEC''\<rparr>,
      \<lparr>bot = demo_bot,
       trace = [GenerateCalled (JStr ''show all users older than 30''),
                GenerateReturned (Some demo_query),
                ExecuteCalled demo_query, ConnOpened,
                ExecuteReturned None
                  (Some ''Error en la base de datos: syntax error at or near SELEC'')]\<rparr>)"
  by (simp add: method_defs scenario_defs clean_demo demo_query_nonempty)

lemma run_no_sql:
  "query_database world_no_sql demo_request (start demo_bot) =
     (Inr \<lparr>status = 500, body = ErrorBody msg_no_sql\<rparr>,
      \<lparr>bot = demo_bot,
       trace = [GenerateCalled (JStr ''show all users older than 30''),
                GenerateReturned None]\<rparr>)"
  by (simp add: method_defs scenario_defs)

lemma run_no_explanation:
  "query_database world_no_explanation demo_request (start demo_bot) =
     (Inr \<lparr>status = 200, body = DataBody (Some demo_rows) JNull\<rparr>,
      \<lparr>bot = demo_bot,
       trace = [GenerateCalled (JStr ''show all users older than 30''),
                GenerateReturned (Some demo_query),
                ExecuteCalled demo_query, ConnOpened, ConnClosed,
                ExecuteReturned (Some demo_rows) None, ExplainCalled (Some demo_rows),
                ExplainReturned JNull]\<rparr>)"
  by (simp add: method_defs scenario_defs clean_demo demo_query_nonempty)

lemma run_time_no_explanation:
  "query_database world_time_no_explanation demo_request (start demo_bot) =
     (Inr \<lparr>status = 500,
           body = ErrorBody ''Error general: Object of type time is not JSON serializable''\<rparr>,
      \<lparr>bot = demo_bot,
       trace = [GenerateCalled (JStr ''show all users older than 30''),
                GenerateReturned (Some demo_query),
                ExecuteCalled demo_query, ConnOpened, ConnClosed,
                ExecuteReturned (Some time_rows) None, ExplainCalled (Some time_rows),
                ExplainReturned JNull]\<rparr>)"
  by (simp add: method_defs scenario_defs clean_demo demo_query_nonempty jsonify_data_def
        encoder_visits_def map_filter_simps msg_general_def)

lemma run_explainer_down:
  "raises_at world_explainer_down demo_request (start demo_bot) Explanation
     (Exn RequestException ''Connection refused'')"
  by (simp add: method_defs scenario_defs clean_demo demo_query_nonempty)

section \<open>Properties of the service\<close>

text \<open>
  Claim C1. In every run in which \<open>execute_query\<close> returns an error string \<open>err\<close>, the
  handler answers 500 with exactly \<open>err\<close> in the error field, and the explainer is not
  called. (The error strings that \<open>execute_query\<close> returns are never empty, so the test of
  line 118 sees each of them.)
\<close>

theorem db_error_gives_500_and_no_explanation:
  assumes "ExecuteReturned res (Some err) \<in> set (trace (snd (query_database w data (start b))))"
  shows "fst (query_database w data (start b)) = Inr \<lparr>status = 500, body = ErrorBody err\<rparr> \<and>
         (\<forall>r. ExplainCalled r \<notin> set (trace (snd (query_database w data (start b)))))"
proof -
  obtain out s' where run: "query_database w data (start b) = (out, s')"
    by (cases "query_database w data (start b)")
  from assms have "ExecuteReturned res (Some err) \<in> set (trace s')"
    by (simp add: run)
  with run have "out = Inr \<lparr>status = 500, body = ErrorBody err\<rparr> \<and>
      (\<forall>r. ExplainCalled r \<notin> set (trace s'))"
    by (cases rule: query_database_runs) (auto simp: start_def)
  then show ?thesis
    by (simp add: run)
qed

theorem db_error_gives_500_and_no_explanation_witness:
  "ExecuteReturned None (Some ''Error en la base de datos: syntax error at or near SELEC'')
     \<in> set (trace (snd (query_database world_db_error demo_request (start demo_bot)))) \<and>
   fst (query_database world_db_error demo_request (start demo_bot)) =
     Inr \<lparr>status = 500,
          body = ErrorBody ''Error en la base de datos: syntax error at or near SELEC''\<rparr> \<and>
   (\<forall>r. ExplainCalled r
      \<notin> set (trace (snd (query_database world_db_error demo_request (start demo_bot)))))"
proof -
  have h: "ExecuteReturned None (Some ''Error en la base de datos: syntax error at or near SELEC'')
      \<in> set (trace (snd (query_database world_db_error demo_request (start demo_bot))))"
    by (simp add: run_db_error)
  from db_error_gives_500_and_no_explanation [OF h] h show ?thesis
    by blast
qed

text \<open>
  Claim C2. A body without the field is to give a 400 and never a 500. The handler does so
  for every JSON object without the field (\<open>object_without_user_input\<close>), but a body that
  is valid JSON and not an object, such as \<^verbatim>\<open>[]\<close>, also lacks the field, and there
  \<^verbatim>\<open>data.get\<close> of line 104 raises an \<^verbatim>\<open>AttributeError\<close> before the \<^verbatim>\<open>try\<close> of line
  109: the handler returns no response at all, and the exception reaches the framework.
\<close>

theorem non_object_body_escapes:
  "query_database w (JArr []) s = (Inl (no_attribute (JArr []) ''get''), s)"
  by (simp add: query_database_def)

lemma object_without_user_input:
  assumes "map_of kvs ''userInput'' = None"
  shows "query_database w (JObj kvs) s =
           (Inr \<lparr>status = 400, body = ErrorBody msg_missing_input\<rparr>, s)"
  using assms by (simp add: query_database_def)

text \<open>
  Claim C3. The connection is to be closed before \<open>execute_query\<close> returns, on success and
  on a database error. On success it is (\<open>fetched_rows_close_connection\<close>). On a database
  error it is not: the query of this run is rejected by the server, \<open>execute_query\<close>
  returns the error string, and the connection it opened has not been closed
  (\<open>database_error_leaves_connection\<close> is the same for every world).
\<close>

theorem connection_stays_open_on_database_error:
  "fst (execute_query world_db_error ''SELEC 1'' (start demo_bot)) =
     Inr (None, Some ''Error en la base de datos: syntax error at or near SELEC'') \<and>
   trace (snd (execute_query world_db_error ''SELEC 1'' (start demo_bot))) =
     [ExecuteCalled ''SELEC 1'', ConnOpened,
      ExecuteReturned None (Some ''Error en la base de datos: syntax error at or near SELEC'')] \<and>
   ConnClosed \<notin> set (trace (snd (execute_query world_db_error ''SELEC 1'' (start demo_bot))))"
  by (simp add: method_defs scenario_defs)

text \<open>
  Claim C4. In every run in which the generator returns \<^verbatim>\<open>None\<close> or the empty string,
  the handler answers 500, \<open>execute_query\<close> is not called and no connection is opened.
\<close>

theorem no_sql_gives_500_and_no_database_call:
  assumes "GenerateReturned None \<in> set (trace (snd (query_database w data (start b)))) \<or>
           GenerateReturned (Some []) \<in> set (trace (snd (query_database w data (start b))))"
  shows "fst (query_database w data (start b)) =
           Inr \<lparr>status = 500, body = ErrorBody msg_no_sql\<rparr> \<and>
         (\<forall>q. ExecuteCalled q \<notin> set (trace (snd (query_database w data (start b))))) \<and>
         ConnOpened \<notin> set (trace (snd (query_database w data (start b))))"
proof -
  obtain out s' where run: "query_database w data (start b) = (out, s')"
    by (cases "query_database w data (start b)")
  from assms have "GenerateReturned None \<in> set (trace s') \<or>
      GenerateReturned (Some []) \<in> set (trace s')"
    by (simp add: run)
  with run have "out = Inr \<lparr>status = 500, body = ErrorBody msg_no_sql\<rparr> \<and>
      (\<forall>q. ExecuteCalled q \<notin> set (trace s')) \<and> ConnOpened \<notin> set (trace s')"
    by (cases rule: query_database_runs) (auto simp: start_def)
  then show ?thesis
    by (simp add: run)
qed

theorem no_sql_gives_500_and_no_database_call_witness:
  "(GenerateReturned None
      \<in> set (trace (snd (query_database world_no_sql demo_request (start demo_bot)))) \<or>
    GenerateReturned (Some [])
      \<in> set (trace (snd (query_database world_no_sql demo_request (start demo_bot))))) \<and>
   fst (query_database world_no_sql demo_request (start demo_bot)) =
     Inr \<lparr>status = 500, body = ErrorBody msg_no_sql\<rparr> \<and>
   (\<forall>q. ExecuteCalled q
      \<notin> set (trace (snd (query_database world_no_sql demo_request (start demo_bot))))) \<and>
   ConnOpened \<notin> set (trace (snd (query_database world_no_sql demo_request (start demo_bot))))"
proof -
  have h: "GenerateReturned None
        \<in> set (trace (snd (query_database world_no_sql demo_request (start demo_bot)))) \<or>
      GenerateReturned (Some [])
        \<in> set (trace (snd (query_database world_no_sql demo_request (start demo_bot))))"
    by (simp add: run_no_sql)
  from no_sql_gives_500_and_no_database_call [OF h] h show ?thesis
    by blast
qed

text \<open>
  Claim C5, as stated: whenever \<open>execute_query\<close> returns rows without an error and the
  explainer returns \<^verbatim>\<open>None\<close>, the handler answers 200 with those rows as \<^verbatim>\<open>data\<close> and
  \<^verbatim>\<open>null\<close> as \<^verbatim>\<open>enhanced_response\<close>. It fails for rows that \<^verbatim>\<open>jsonify\<close> cannot write:
  for a query of the time of day the rows are fetched, the explainer returns \<^verbatim>\<open>None\<close>,
  line 123 raises inside the \<^verbatim>\<open>try\<close> and the answer is the 500 of line 126.
\<close>

theorem explainer_failure_with_unwritable_rows:
  "ExecuteReturned (Some time_rows) None
     \<in> set (trace (snd (query_database world_time_no_explanation demo_request
                          (start demo_bot)))) \<and>
   ExplainReturned JNull
     \<in> set (trace (snd (query_database world_time_no_explanation demo_request
                          (start demo_bot)))) \<and>
   fst (query_database world_time_no_explanation demo_request (start demo_bot)) =
     Inr \<lparr>status = 500,
          body = ErrorBody ''Error general: Object of type time is not JSON serializable''\<rparr> \<and>
   fst (query_database world_time_no_explanation demo_request (start demo_bot)) \<noteq>
     Inr \<lparr>status = 200, body = DataBody (Some time_rows) JNull\<rparr>"
  by (simp add: run_time_no_explanation)

text \<open>
  Claim C5, amended: whenever \<open>execute_query\<close> returns rows without an error, every value
  of these rows is of a type that \<^verbatim>\<open>jsonify\<close> writes, and the explainer returns
  \<^verbatim>\<open>None\<close>, the handler answers 200 with those rows as \<^verbatim>\<open>data\<close> and \<^verbatim>\<open>null\<close> as
  \<^verbatim>\<open>enhanced_response\<close>.
\<close>

theorem explainer_failure_keeps_rows:
  assumes "ExecuteReturned res None \<in> set (trace (snd (query_database w data (start b))))"
      and "ExplainReturned JNull \<in> set (trace (snd (query_database w data (start b))))"
      and "serialisable res"
  shows "fst (query_database w data (start b)) =
           Inr \<lparr>status = 200, body = DataBody res JNull\<rparr> \<and>
         (\<exists>rows. res = Some rows)"
proof -
  obtain out s' where run: "query_database w data (start b) = (out, s')"
    by (cases "query_database w data (start b)")
  from assms have "ExecuteReturned res None \<in> set (trace s') \<and>
      ExplainReturned JNull \<in> set (trace s') \<and> serialisable res"
    by (simp add: run)
  with run have "out = Inr \<lparr>status = 200, body = DataBody res JNull\<rparr> \<and>
      (\<exists>rows. res = Some rows)"
    by (cases rule: query_database_runs) (auto simp: start_def)
  then show ?thesis
    by (simp add: run)
qed

theorem explainer_failure_keeps_rows_witness:
  "ExecuteReturned (Some demo_rows) None
     \<in> set (trace (snd (query_database world_no_explanation demo_request (start demo_bot)))) \<and>
   ExplainReturned JNull
     \<in> set (trace (snd (query_database world_no_explanation demo_request (start demo_bot)))) \<and>
   serialisable (Some demo_rows) \<and>
   fst (query_database world_no_explanation demo_request (start demo_bot)) =
     Inr \<lparr>status = 200, body = DataBody (Some demo_rows) JNull\<rparr>"
proof -
  have h1: "ExecuteReturned (Some demo_rows) None
      \<in> set (trace (snd (query_database world_no_explanation demo_request (start demo_bot))))"
    by (simp add: run_no_explanation)
  have h2: "ExplainReturned JNull
      \<in> set (trace (snd (query_database world_no_explanation demo_request (start demo_bot))))"
    by (simp add: run_no_explanation)
  have h3: "serialisable (Some demo_rows)"
    by (simp add: serialisable_def demo_rows_def)
  from explainer_failure_keeps_rows [OF h1 h2 h3] h1 h2 h3 show ?thesis
    by blast
qed

text \<open>
  An exception that leaves SQL generation, query execution or the explanation, uncaught
  by the method, becomes a 500 response whose error field is \<^verbatim>\<open>Error general: \<close>
  followed by its text. (A \<^verbatim>\<open>psycopg2.Error\<close> of query execution does not leave
  \<open>execute_query\<close>: line 42 catches it, and the answer carries its text behind
  \<^verbatim>\<open>Error en la base de datos: \<close>, as in \<open>run_db_error\<close>.)
\<close>

lemma uncaught_exception_in_try_gives_500:
  assumes "st \<noteq> InputParsing" and "raises_at w data s st e"
  shows "fst (query_database w data s) =
           Inr \<lparr>status = 500, body = ErrorBody (msg_general @ exn_text e)\<rparr>"
  using assms
  by (cases st)
     (auto simp: query_database_def try_body_def
           split: sum.splits prod.splits option.splits if_splits)

lemma explainer_down_gives_500:
  "fst (query_database world_explainer_down demo_request (start demo_bot)) =
     Inr \<lparr>status = 500, body = ErrorBody (msg_general @ ''Connection refused'')\<rparr>"
  using uncaught_exception_in_try_gives_500 [OF _ run_explainer_down]
  by simp

text \<open>
  Claim C6. An uncaught exception raised at any step, input parsing included, is to
  become a 500 response that carries its text. For the three steps inside the \<^verbatim>\<open>try\<close>
  it does (\<open>uncaught_exception_in_try_gives_500\<close>). Input parsing stands before the
  \<^verbatim>\<open>try\<close>: for the body \<^verbatim>\<open>[]\<close> the \<^verbatim>\<open>AttributeError\<close> of line 104 is raised at that
  step and leaves the handler, which gives no response. This is the unguarded
  \<^verbatim>\<open>data.get\<close> of claim C2.
\<close>

theorem parsing_exception_escapes:
  "raises_at demo_world (JArr []) (start demo_bot) InputParsing (no_attribute (JArr []) ''get'') \<and>
   fst (query_database demo_world (JArr []) (start demo_bot)) =
     Inl (no_attribute (JArr []) ''get'') \<and>
   fst (query_database demo_world (JArr []) (start demo_bot)) \<noteq>
     Inr \<lparr>status = 500,
          body = ErrorBody (msg_general @ exn_text (no_attribute (JArr []) ''get''))\<rparr>"
  by (simp add: query_database_def)

text \<open>
  Claim C7. In every run that answers 200, \<^verbatim>\<open>data\<close> is a list of records, one for each
  fetched row, and the keys of every record are the column names of the description of
  the cursor of the executed query. The hypothesis on the rows is the driver's: a
  fetched row has one value for each column of the description.
\<close>

theorem data_records_have_query_columns:
  assumes "fst (query_database w data (start b)) = Inr resp" and "status resp = 200"
      and "ExecuteCalled q \<in> set (trace (snd (query_database w data (start b))))"
      and "pg_cursor w q = Inr cur" and "description cur = Some descr"
      and "\<forall>r \<in> set (fetched cur). length r = length descr"
  shows "\<exists>recs v. body resp = DataBody (Some recs) v \<and> length recs = length (fetched cur) \<and>
           (\<forall>rec \<in> set recs. fst ` set rec = set (map fst descr))"
proof -
  obtain out s' where run: "query_database w data (start b) = (out, s')"
    by (cases "query_database w data (start b)")
  from assms(1) have out: "out = Inr resp"
    by (simp add: run)
  from assms(3) have called: "ExecuteCalled q \<in> set (trace s')"
    by (simp add: run)
  from run show ?thesis
  proof (cases rule: query_database_runs)
    case (success ui q' recs v)
    from success(6) called have q: "q' = q"
      by (auto simp: start_def)
    from success(7) q obtain s1 s2 where "execute_query w q s1 = (Inr (Some recs, None), s2)"
      by blast
    from execute_query_records [OF this] assms(4,5)
    have recs: "recs = map (\<lambda>r. py_dict (zip (map fst descr) r)) (fetched cur)"
      by auto
    have "fst ` set (py_dict (zip (map fst descr) r)) = set (map fst descr)"
      if "r \<in> set (fetched cur)" for r
    proof -
      from that assms(6) have "length r = length (map fst descr)"
        by simp
      then show ?thesis
        by (simp only: py_dict_keys zip_keys)
    qed
    then have "\<forall>rec \<in> set recs. fst ` set rec = set (map fst descr)"
      unfolding recs by auto
    with recs success(4) out show ?thesis
      by auto
  qed (use out assms(2) in auto)
qed

theorem data_records_have_query_columns_witness:
  "fst (query_database demo_world demo_request (start demo_bot)) =
     Inr \<lparr>status = 200,
          body = DataBody (Some demo_rows) (JStr ''Hay dos usuarios mayores de 30.'')\<rparr> \<and>
   ExecuteCalled demo_query
     \<in> set (trace (snd (query_database demo_world demo_request (start demo_bot)))) \<and>
   pg_cursor demo_world demo_query = Inr demo_cursor \<and>
   description demo_cursor =
     Some [(''id'', 23), (''nombre'', 1043), (''email'', 1043), (''edad'', 23)] \<and>
   list_all (\<lambda>r. length r = 4) (fetched demo_cursor) \<and>
   length demo_rows = length (fetched demo_cursor) \<and>
   list_all (\<lambda>rec. fst ` set rec = {''id'', ''nombre'', ''email'', ''edad''}) demo_rows"
proof -
  let ?resp = "\<lparr>status = 200,
      body = DataBody (Some demo_rows) (JStr ''Hay dos usuarios mayores de 30.'')\<rparr>"
  let ?descr = "[(''id'', 23), (''nombre'', 1043), (''email'', 1043), (''edad'', 23 :: nat)]"
  have h1: "fst (query_database demo_world demo_request (start demo_bot)) = Inr ?resp"
    by (simp add: run_demo)
  have h2: "status ?resp = 200"
    by simp
  have h3: "ExecuteCalled demo_query
      \<in> set (trace (snd (query_database demo_world demo_request (start demo_bot))))"
    by (simp add: run_demo)
  have h4: "pg_cursor demo_world demo_query = Inr demo_cursor"
    by (simp add: demo_world_def)
  have h5: "description demo_cursor = Some ?descr"
    by (simp add: demo_cursor_def)
  have h6: "\<forall>r \<in> set (fetched demo_cursor). length r = length ?descr"
    by (simp add: demo_cursor_def)
  from data_records_have_query_columns [OF h1 h2 h3 h4 h5 h6] h1 h3 h4 h5 h6
  show ?thesis
    by (auto simp: list_all_iff)
qed

text \<open>
  Claim C8. For a reply with status 200 the generator returns the content of the first
  choice, stripped first and with the fences removed after
  (\<open>generator_returns_cleaned_content\<close>, \<open>clean_sql_no_fence\<close>); whitespace that stood
  next to a fence stays, as the line breaks of \<open>demo_query\<close> do. For any other status the
  generator is to return \<^verbatim>\<open>None\<close>. It does
  when the body of the reply is JSON (\<open>generator_returns_none_on_json_error\<close>). When it
  is not, as for the HTML page of a gateway, \<^verbatim>\<open>response.json()\<close> inside the message of
  line 71 raises, and the generator returns nothing.
\<close>

theorem generator_raises_on_non_json_error_body:
  "status_code html_reply \<noteq> 200 \<and>
   fst (get_sql_query_from_openai world_bad_gateway (JStr ''show all users older than 30'')
          (start demo_bot)) =
     Inl (Exn JSONDecodeError ''Expecting value: line 1 column 1 (char 0)'') \<and>
   fst (get_sql_query_from_openai world_bad_gateway (JStr ''show all users older than 30'')
          (start demo_bot)) \<noteq> Inr None"
  by (simp add: method_defs scenario_defs)

text \<open>
  Claim C9. Whatever the outcome of a request, the two fields of the shared
  \<^verbatim>\<open>sql_chatbot\<close> are after it what they were before.
\<close>

theorem chatbot_fields_unchanged:
  "bot (snd (query_database w data s)) = bot s"
proof -
  obtain out s' where run: "query_database w data s = (out, s')"
    by (cases "query_database w data s")
  from run have "bot s' = bot s"
    by (cases rule: query_database_runs) simp_all
  then show ?thesis
    by (simp add: run)
qed

theorem chatbot_fields_unchanged_witness:
  "bot (snd (query_database demo_world demo_request (start demo_bot))) = demo_bot \<and>
   db_url (bot (snd (query_database world_db_error demo_request (start demo_bot)))) =
     Some ''postgresql://app@db/app'' \<and>
   openai_api_key (bot (snd (query_database world_db_error (JObj []) (start demo_bot)))) =
     Some ''sk-test''"
  using chatbot_fields_unchanged [of demo_world demo_request "start demo_bot"]
    chatbot_fields_unchanged [of world_db_error demo_request "start demo_bot"]
    chatbot_fields_unchanged [of world_db_error "JObj []" "start demo_bot"]
  by (simp add: start_def demo_bot_def)

text \<open>
  Claim C10. A body whose \<^verbatim>\<open>userInput\<close> is the empty string or \<^verbatim>\<open>null\<close> is answered as
  one without the field: 400 with the missing-parameter message, the state as it was (so
  that nothing was called), and the same outcome as for any object that lacks the field.
\<close>

theorem falsy_user_input_is_missing:
  assumes "map_of kvs ''userInput'' = Some v" and "v = JStr [] \<or> v = JNull"
      and "map_of kvs' ''userInput'' = None"
  shows "query_database w (JObj kvs) s =
           (Inr \<lparr>status = 400, body = ErrorBody msg_missing_input\<rparr>, s) \<and>
         query_database w (JObj kvs) s = query_database w (JObj kvs') s"
  using assms by (auto simp: query_database_def)

theorem falsy_user_input_is_missing_witness:
  "map_of [(''userInput'', JStr [])] ''userInput'' = Some (JStr []) \<and>
   map_of ([] :: (string \<times> json) list) ''userInput'' = None \<and>
   query_database demo_world (JObj [(''userInput'', JStr [])]) (start demo_bot) =
     (Inr \<lparr>status = 400, body = ErrorBody msg_missing_input\<rparr>, start demo_bot) \<and>
   query_database demo_world (JObj [(''userInput'', JStr [])]) (start demo_bot) =
     query_database demo_world (JObj []) (start demo_bot)"
proof -
  have h1: "map_of [(''userInput'', JStr [])] ''userInput'' = Some (JStr [])"
    by simp
  have h2: "JStr [] = JStr [] \<or> JStr [] = JNull"
    by simp
  have h3: "map_of ([] :: (string \<times> json) list) ''userInput'' = None"
    by simp
  from falsy_user_input_is_missing [OF h1 h2 h3, of demo_world "start demo_bot"] h1 h3
  show ?thesis
    by blast
qed

end
